theory Spec2Isabelle
  imports Main
begin

section \<open>WeeChat configuration core (wee-config.c)\<close>

text \<open>
  A shallow embedding of the parts of \<^verbatim>\<open>src/core/wee-config.c\<close> that deal with the
  day-change timer, the reload entry point and the readers and writers of the
  \<^verbatim>\<open>bars\<close> and \<^verbatim>\<open>keys\<close> sections. The C globals become the fields of one record,
  \<open>weechat\<close>, which every function takes and returns. A \<^verbatim>\<open>char *\<close> that may be
  \<^verbatim>\<open>NULL\<close> is a \<open>string option\<close>, a pointer to a hook or to a key function is a
  \<open>nat option\<close>.
\<close>

subsection \<open>Options\<close>

text \<open>
  The four type names handed to \<^verbatim>\<open>config_file_new_option\<close> in \<^verbatim>\<open>config_weechat_init\<close>.
  An enumerated integer is an \<^verbatim>\<open>"integer"\<close> option declared with a \<^verbatim>\<open>"a|b|c"\<close> list of
  labels.
\<close>

datatype option_type =
  CONFIG_OPTION_BOOLEAN | CONFIG_OPTION_INTEGER | CONFIG_OPTION_STRING | CONFIG_OPTION_COLOR

datatype config_value = Int_value int | String_value string

text \<open>The change callbacks of the options modelled below.\<close>

datatype change_cb = Config_change_buffer_content | Config_change_day_change

record t_config_option =
  opt_name :: string
  opt_type :: option_type
  opt_string_values :: "string list"
  opt_min :: int
  opt_max :: int
  opt_default :: string
  opt_value :: config_value
  opt_callback_change :: "change_cb option"

text \<open>The option pointers of \<^verbatim>\<open>wee-config.c\<close> that the model keeps.\<close>

datatype option_ptr =
  Config_look_scroll_amount | Config_look_day_change | Config_look_day_change_time_format

definition CONFIG_INTEGER :: "t_config_option \<Rightarrow> int" where
  "CONFIG_INTEGER opt = (case opt_value opt of Int_value n \<Rightarrow> n | String_value _ \<Rightarrow> 0)"

definition CONFIG_BOOLEAN :: "t_config_option \<Rightarrow> bool" where
  "CONFIG_BOOLEAN opt = (CONFIG_INTEGER opt \<noteq> 0)"

definition CONFIG_STRING :: "t_config_option \<Rightarrow> string" where
  "CONFIG_STRING opt = (case opt_value opt of String_value v \<Rightarrow> v | Int_value _ \<Rightarrow> [])"

subsection \<open>Hooks, keys, bars, buffers\<close>

datatype timer_callback = Config_day_change_timer_cb | Gui_infobar_refresh_timer_cb

record t_hook =
  hook_ptr :: nat
  hook_interval :: int
  hook_align_second :: int
  hook_max_calls :: int
  hook_callback :: timer_callback

record t_gui_key =
  key_key :: string
  key_command :: "string option"
  key_function :: "nat option"
  key_args :: "string option"

record t_gui_bar =
  bar_name :: string
  bar_type :: nat
  bar_position :: nat
  bar_size :: int
  bar_separator :: int
  bar_items :: string

datatype buffer_type = GUI_BUFFER_TYPE_FORMATED | GUI_BUFFER_TYPE_FREE

record t_gui_buffer =
  buffer_number :: nat
  buffer_type :: buffer_type
  buffer_lines :: "string list"

subsection \<open>The global state\<close>

text \<open>
  \<open>weechat_hooks\<close> is the list of live hooks kept by the hook layer, \<open>gui_hotlist\<close> the
  buffers in the hotlist (by their position in \<open>gui_buffers\<close>), \<open>gui_events\<close> and
  \<open>callback_calls\<close> traces of the redraw requests and of the change callbacks that were
  run. The tables \<^verbatim>\<open>gui_key_functions\<close> (function name and function pointer),
  \<^verbatim>\<open>gui_bar_type_str\<close> and \<^verbatim>\<open>gui_bar_position_str\<close> are globals of the keyboard and bar
  layers, \<^verbatim>\<open>gui_color_names\<close> the symbolic colour names of the colour layer; their contents
  are not fixed here.
\<close>

datatype gui_event = Gui_window_redraw_buffer

record weechat =
  config_options :: "option_ptr \<Rightarrow> t_config_option"
  config_day_change_timer :: "nat option"
  weechat_hooks :: "t_hook list"
  gui_keys :: "t_gui_key list"
  gui_key_functions :: "(string \<times> nat) list"
  gui_bars :: "t_gui_bar list"
  gui_bar_type_str :: "string list"
  gui_bar_position_str :: "string list"
  gui_buffers :: "t_gui_buffer list"
  gui_add_hotlist :: int
  gui_hotlist :: "nat list"
  gui_color_names :: "string list"
  gui_events :: "gui_event list"
  callback_calls :: "change_cb list"

subsection \<open>The day-change timer\<close>

text \<open>
  Modelled from the spec: \<^verbatim>\<open>hook_timer\<close> and \<^verbatim>\<open>unhook\<close> belong to \<^verbatim>\<open>wee-hook.c\<close>, which
  is not among the sources. Section 4.6: enabling creates a new recurring timer, disabling
  cancels it and releases the handle. The new hook gets an address no live hook has.
\<close>

definition new_hook_ptr :: "t_hook list \<Rightarrow> nat" where
  "new_hook_ptr hooks = Suc (fold max (map hook_ptr hooks) 0)"

definition hook_timer ::
  "int \<Rightarrow> int \<Rightarrow> int \<Rightarrow> timer_callback \<Rightarrow> weechat \<Rightarrow> nat option \<times> weechat" where
  "hook_timer interval align_second max_calls callback s =
     (let p = new_hook_ptr (weechat_hooks s);
          h = \<lparr>hook_ptr = p, hook_interval = interval, hook_align_second = align_second,
               hook_max_calls = max_calls, hook_callback = callback\<rparr>
      in (Some p, s\<lparr>weechat_hooks := weechat_hooks s @ [h]\<rparr>))"

definition unhook :: "nat \<Rightarrow> weechat \<Rightarrow> weechat" where
  "unhook p s = s\<lparr>weechat_hooks := filter (\<lambda>h. hook_ptr h \<noteq> p) (weechat_hooks s)\<rparr>"

text \<open>\<^verbatim>\<open>config_change_day_change\<close>, lines 397-418.\<close>

definition config_change_day_change :: "weechat \<Rightarrow> weechat" where
  "config_change_day_change s =
     (if CONFIG_BOOLEAN (config_options s Config_look_day_change) then
        (case config_day_change_timer s of
           None \<Rightarrow>
             (case hook_timer (24 * 3600 * 1000) (24 * 3600) 0 Config_day_change_timer_cb s of
                (h, s') \<Rightarrow> s'\<lparr>config_day_change_timer := h\<rparr>)
         | Some _ \<Rightarrow> s)
      else
        (case config_day_change_timer s of
           Some t \<Rightarrow> (unhook t s)\<lparr>config_day_change_timer := None\<rparr>
         | None \<Rightarrow> s))"

subsection \<open>The options as declared by \<^verbatim>\<open>config_weechat_init\<close>\<close>

definition INT_MAX :: int where
  "INT_MAX = 2147483647"

text \<open>
  Lines 661-666, 825-829 and 830-834: name, type, labels, minimum, maximum, default and
  change callback as written in the source; the value is the default, parsed.
\<close>

definition look_scroll_amount :: t_config_option where
  "look_scroll_amount =
     \<lparr>opt_name = ''look_scroll_amount'', opt_type = CONFIG_OPTION_INTEGER,
      opt_string_values = [], opt_min = 1, opt_max = INT_MAX, opt_default = ''3'',
      opt_value = Int_value 3, opt_callback_change = Some Config_change_buffer_content\<rparr>"

definition look_day_change :: t_config_option where
  "look_day_change =
     \<lparr>opt_name = ''look_day_change'', opt_type = CONFIG_OPTION_BOOLEAN,
      opt_string_values = [], opt_min = 0, opt_max = 0, opt_default = ''on'',
      opt_value = Int_value 1, opt_callback_change = Some Config_change_day_change\<rparr>"

definition look_day_change_time_format :: t_config_option where
  "look_day_change_time_format =
     \<lparr>opt_name = ''look_day_change_time_format'', opt_type = CONFIG_OPTION_STRING,
      opt_string_values = [], opt_min = 0, opt_max = 0, opt_default = ''%a, %d %b %Y'',
      opt_value = String_value ''%a, %d %b %Y'', opt_callback_change = None\<rparr>"

fun declared_option :: "option_ptr \<Rightarrow> t_config_option" where
  "declared_option Config_look_scroll_amount = look_scroll_amount"
| "declared_option Config_look_day_change = look_day_change"
| "declared_option Config_look_day_change_time_format = look_day_change_time_format"

text \<open>
  The state once \<^verbatim>\<open>config_weechat_init\<close> has run: the options hold their defaults,
  \<^verbatim>\<open>config_day_change_timer\<close> is \<^verbatim>\<open>NULL\<close>, there are no hooks, keys, bars or buffers yet
  (and the tables of the keyboard and bar layers are left empty).
\<close>

definition config_weechat_init :: weechat where
  "config_weechat_init =
     \<lparr>config_options = declared_option, config_day_change_timer = None,
      weechat_hooks = [], gui_keys = [], gui_key_functions = [], gui_bars = [],
      gui_bar_type_str = [], gui_bar_position_str = [], gui_buffers = [],
      gui_add_hotlist = 1, gui_hotlist = [], gui_color_names = [], gui_events = [],
      callback_calls = []\<rparr>"

subsection \<open>Stating the timer invariant\<close>

text \<open>The addresses of the live timers that run \<^verbatim>\<open>config_day_change_timer_cb\<close>.\<close>

definition day_change_timers :: "weechat \<Rightarrow> nat list" where
  "day_change_timers s =
     map hook_ptr (filter (\<lambda>h. hook_callback h = Config_day_change_timer_cb) (weechat_hooks s))"

text \<open>
  Live hooks have distinct addresses, and the live day-change timers are exactly the one
  the handle points to, or none when the handle is \<^verbatim>\<open>NULL\<close>.
\<close>

definition timer_state_ok :: "weechat \<Rightarrow> bool" where
  "timer_state_ok s =
     (distinct (map hook_ptr (weechat_hooks s)) \<and>
      day_change_timers s = (case config_day_change_timer s of None \<Rightarrow> [] | Some t \<Rightarrow> [t]))"

text \<open>The option takes the value \<open>b\<close>, then its change handler runs.\<close>

definition day_change_store :: "bool \<Rightarrow> weechat \<Rightarrow> weechat" where
  "day_change_store b s =
     s\<lparr>config_options := (config_options s)
         (Config_look_day_change :=
            (config_options s Config_look_day_change)
              \<lparr>opt_value := Int_value (if b then 1 else 0)\<rparr>)\<rparr>"

definition day_change_changed :: "weechat \<Rightarrow> bool \<Rightarrow> weechat" where
  "day_change_changed s b = config_change_day_change (day_change_store b s)"

subsection \<open>C library: characters, \<^verbatim>\<open>strtol\<close>, \<^verbatim>\<open>%d\<close>\<close>

definition isdigit :: "char \<Rightarrow> bool" where
  "isdigit c = (48 \<le> (of_char c :: nat) \<and> (of_char c :: nat) \<le> 57)"

text \<open>\<^verbatim>\<open>isspace\<close> in the C locale: space, and the control characters 9 to 13.\<close>

definition isspace :: "char \<Rightarrow> bool" where
  "isspace c = ((of_char c :: nat) = 32 \<or> (9 \<le> (of_char c :: nat) \<and> (of_char c :: nat) \<le> 13))"

definition digit_value :: "char \<Rightarrow> int" where
  "digit_value c = int (of_char c) - 48"

fun digits_value :: "int \<Rightarrow> string \<Rightarrow> int" where
  "digits_value acc [] = acc"
| "digits_value acc (c # cs) = digits_value (10 * acc + digit_value c) cs"

definition LONG_MAX :: int where
  "LONG_MAX = 9223372036854775807"

definition LONG_MIN :: int where
  "LONG_MIN = - 9223372036854775808"

text \<open>
  \<^verbatim>\<open>strtol (nptr, &endptr, 10)\<close> with a 64-bit \<^verbatim>\<open>long\<close>: white space is skipped, then an
  optional sign and the longest run of digits are read. The result is the value (clamped
  to the range of \<^verbatim>\<open>long\<close>) and the rest of the string, which is what \<^verbatim>\<open>endptr\<close> points
  to. When there is no digit to read, no conversion is made: the value is 0 and \<^verbatim>\<open>endptr\<close>
  is \<^verbatim>\<open>nptr\<close>.
\<close>

definition strtol :: "string \<Rightarrow> int \<times> string" where
  "strtol nptr =
     (let t = dropWhile isspace nptr;
          neg = (case t of [] \<Rightarrow> False | c # _ \<Rightarrow> c = CHR ''-'');
          u = (case t of [] \<Rightarrow> [] | c # r \<Rightarrow> if c = CHR ''-'' \<or> c = CHR ''+'' then r else t);
          ds = takeWhile isdigit u
      in if ds = [] then (0, nptr)
         else (max LONG_MIN (min LONG_MAX (if neg then - digits_value 0 ds else digits_value 0 ds)),
               dropWhile isdigit u))"

text \<open>The assignment \<^verbatim>\<open>size = number\<close> of a \<^verbatim>\<open>long\<close> to an \<^verbatim>\<open>int\<close>: the low 32 bits, signed.\<close>

definition int_of_long :: "int \<Rightarrow> int" where
  "int_of_long n = (n + 2147483648) mod 4294967296 - 2147483648"




subsection \<open>The configuration file, as seen by section readers and writers\<close>

text \<open>
  \<^verbatim>\<open>config_file_write_line (file, name, NULL)\<close> writes the section header, with a value it
  writes the line \<^verbatim>\<open>name = value\<close>. A writer returns the lines it wrote, in order.
\<close>

datatype config_line = Section_line string | Option_line string string

text \<open>
  Modelled from the spec: \<^verbatim>\<open>string_explode\<close> belongs to \<^verbatim>\<open>wee-string.c\<close>, which is not
  among the sources. Section 4.3 speaks of semicolon-separated fields: the fields are the
  maximal runs of characters that are not separators, so separators at either end or next
  to each other delimit no empty field. \<open>cur\<close> is the field being read.
\<close>

fun explode_fields :: "string \<Rightarrow> string \<Rightarrow> string \<Rightarrow> string list" where
  "explode_fields separators cur [] = (if cur = [] then [] else [cur])"
| "explode_fields separators cur (c # cs) =
     (if c \<in> set separators
      then (if cur = [] then explode_fields separators [] cs
            else cur # explode_fields separators [] cs)
      else explode_fields separators (cur @ [c]) cs)"

definition string_explode :: "string \<Rightarrow> string \<Rightarrow> string list" where
  "string_explode string separators = explode_fields separators [] string"

subsection \<open>Bars\<close>

fun string_index :: "string list \<Rightarrow> string \<Rightarrow> nat option" where
  "string_index [] x = None"
| "string_index (y # ys) x = (if x = y then Some 0 else map_option Suc (string_index ys x))"

text \<open>
  Modelled from the spec: \<^verbatim>\<open>gui_bar_new\<close> belongs to \<^verbatim>\<open>gui-bar.c\<close>, which is not among the
  sources. Section 3: a BarDefinition has a unique name, a type, a position, a size, a
  separator flag and an item list, and the writer enumerates the definitions in creation
  order. The writer prints \<^verbatim>\<open>gui_bar_type_str[type]\<close> and \<^verbatim>\<open>gui_bar_position_str[position]\<close>,
  so type and position are kept as indices into these tables: a bar is created when no
  bar has the name and both strings are in their table, and it is added at the end.
\<close>

definition gui_bar_new ::
  "string \<Rightarrow> string \<Rightarrow> string \<Rightarrow> int \<Rightarrow> int \<Rightarrow> string \<Rightarrow> weechat \<Rightarrow> weechat" where
  "gui_bar_new name type_str position_str bsize separator items s =
     (if name \<in> set (map bar_name (gui_bars s)) then s
      else (case string_index (gui_bar_type_str s) type_str of
              None \<Rightarrow> s
            | Some t \<Rightarrow>
                (case string_index (gui_bar_position_str s) position_str of
                   None \<Rightarrow> s
                 | Some p \<Rightarrow>
                     s\<lparr>gui_bars := gui_bars s @
                         [\<lparr>bar_name = name, bar_type = t, bar_position = p, bar_size = bsize,
                           bar_separator = separator, bar_items = items\<rparr>]\<rparr>)))"

text \<open>
  \<^verbatim>\<open>config_weechat_read_bar\<close>, lines 444-475. \<^verbatim>\<open>argv[3][0]\<close> of an empty string is the
  terminating zero, which is not \<^verbatim>\<open>'0'\<close>.
\<close>

definition config_weechat_read_bar :: "string option \<Rightarrow> string option \<Rightarrow> weechat \<Rightarrow> weechat" where
  "config_weechat_read_bar option_name val s =
     (case option_name of
        None \<Rightarrow> s
      | Some name \<Rightarrow>
          (case val of
             None \<Rightarrow> s
           | Some v \<Rightarrow>
               if v = [] then s
               else
                 (let argv = string_explode v '';'' in
                  if length argv = 5 then
                    (case strtol (argv ! 2) of
                       (number, error) \<Rightarrow>
                         if error = [] then
                           gui_bar_new name (argv ! 0) (argv ! 1) (int_of_long number)
                             (case argv ! 3 of [] \<Rightarrow> 1 | c # _ \<Rightarrow> if c = CHR ''0'' then 0 else 1)
                             (argv ! 4) s
                         else s)
                  else s)))"





subsection \<open>Keys\<close>

text \<open>
  Modelled from the spec: \<^verbatim>\<open>gui_keyboard_free_all\<close>, \<^verbatim>\<open>gui_keyboard_unbind\<close>,
  \<^verbatim>\<open>gui_keyboard_bind\<close> and the two searches of the function table belong to
  \<^verbatim>\<open>gui-keyboard.c\<close>, which is not among the sources. Section 4.3: the reader takes the key
  as a raw key sequence; unbinding removes the binding of the sequence, if any; binding
  overwrites any prior binding of the sequence, and stores the function and the optional
  trailing argument string when the value (up to its first space) names a known function,
  the whole value as a command otherwise. A new binding is added at the end.
\<close>

definition gui_keyboard_free_all :: "weechat \<Rightarrow> weechat" where
  "gui_keyboard_free_all s = s\<lparr>gui_keys := []\<rparr>"

definition gui_keyboard_unbind :: "string \<Rightarrow> weechat \<Rightarrow> weechat" where
  "gui_keyboard_unbind k s = s\<lparr>gui_keys := filter (\<lambda>b. key_key b \<noteq> k) (gui_keys s)\<rparr>"

definition gui_keyboard_function_search_by_name :: "weechat \<Rightarrow> string \<Rightarrow> nat option" where
  "gui_keyboard_function_search_by_name s name = map_of (gui_key_functions s) name"

definition gui_keyboard_function_search_by_ptr :: "weechat \<Rightarrow> nat \<Rightarrow> string option" where
  "gui_keyboard_function_search_by_ptr s f =
     map_option fst (find (\<lambda>e. snd e = f) (gui_key_functions s))"

definition gui_keyboard_bind :: "string \<Rightarrow> string \<Rightarrow> weechat \<Rightarrow> weechat" where
  "gui_keyboard_bind k command s =
     (let s1 = gui_keyboard_unbind k s;
          new_key =
            (case gui_keyboard_function_search_by_name s
                    (takeWhile (\<lambda>c. c \<noteq> CHR '' '') command) of
               Some f \<Rightarrow>
                 \<lparr>key_key = k, key_command = None, key_function = Some f,
                  key_args = (case dropWhile (\<lambda>c. c \<noteq> CHR '' '') command of
                                [] \<Rightarrow> None | _ # a \<Rightarrow> Some a)\<rparr>
             | None \<Rightarrow>
                 \<lparr>key_key = k, key_command = Some command, key_function = None,
                  key_args = None\<rparr>)
      in s1\<lparr>gui_keys := gui_keys s1 @ [new_key]\<rparr>)"

text \<open>\<^verbatim>\<open>config_weechat_read_key\<close>, lines 511-532.\<close>

definition config_weechat_read_key :: "string option \<Rightarrow> string option \<Rightarrow> weechat \<Rightarrow> weechat" where
  "config_weechat_read_key option_name val s =
     (case option_name of
        None \<Rightarrow> s
      | Some name \<Rightarrow>
          (case val of
             None \<Rightarrow> gui_keyboard_unbind name s
           | Some v \<Rightarrow> if v \<noteq> [] then gui_keyboard_bind name v s
                       else gui_keyboard_unbind name s))"

text \<open>
  \<^verbatim>\<open>config_weechat_write_keys\<close>, lines 540-580. \<open>expanded\<close> is
  \<^verbatim>\<open>gui_keyboard_get_expanded_name\<close> of the keyboard layer, which may return \<^verbatim>\<open>NULL\<close>.
  \<^verbatim>\<open>%s\<close> of a \<^verbatim>\<open>NULL\<close> command prints \<^verbatim>\<open>(null)\<close>, as the GNU C library does.
\<close>

definition quoted :: "string \<Rightarrow> string" where
  "quoted v = CHR 0x22 # v @ [CHR 0x22]"

definition write_key :: "(string \<Rightarrow> string option) \<Rightarrow> weechat \<Rightarrow> t_gui_key \<Rightarrow> config_line list" where
  "write_key expanded s k =
     (let expanded_name = expanded (key_key k);
          name = (case expanded_name of Some e \<Rightarrow> e | None \<Rightarrow> key_key k)
      in case key_function k of
           Some f \<Rightarrow>
             (case gui_keyboard_function_search_by_ptr s f of
                Some function_name \<Rightarrow>
                  [Option_line name
                     (quoted (function_name @
                              (case key_args k of Some _ \<Rightarrow> '' '' | None \<Rightarrow> []) @
                              (case key_args k of Some a \<Rightarrow> a | None \<Rightarrow> [])))]
              | None \<Rightarrow> [])
         | None \<Rightarrow>
             [Option_line name
                (quoted (case key_command k of Some c \<Rightarrow> c | None \<Rightarrow> ''(null)''))])"

fun write_keys_loop ::
  "(string \<Rightarrow> string option) \<Rightarrow> weechat \<Rightarrow> t_gui_key list \<Rightarrow> config_line list" where
  "write_keys_loop expanded s [] = []"
| "write_keys_loop expanded s (k # ks) = write_key expanded s k @ write_keys_loop expanded s ks"

definition config_weechat_write_keys ::
  "(string \<Rightarrow> string option) \<Rightarrow> weechat \<Rightarrow> string \<Rightarrow> config_line list" where
  "config_weechat_write_keys expanded s section_name =
     Section_line section_name # write_keys_loop expanded s (gui_keys s)"

subsection \<open>Reload\<close>

text \<open>
  \<^verbatim>\<open>config_weechat_reload\<close>, lines 427-438. \<open>config_file_reload\<close> is the file engine's
  reload (\<^verbatim>\<open>wee-config-file.c\<close>), which re-reads the file: it gets the state the teardown
  leaves and returns the return code and the state after the re-read.
\<close>

definition config_weechat_reload ::
  "(weechat \<Rightarrow> int \<times> weechat) \<Rightarrow> weechat \<Rightarrow> int \<times> weechat" where
  "config_weechat_reload config_file_reload s = config_file_reload (gui_keyboard_free_all s)"

subsection \<open>Examples and predicates used in the statements\<close>

definition key_unresolved :: "weechat \<Rightarrow> t_gui_key \<Rightarrow> bool" where
  "key_unresolved s k =
     (case key_function k of
        None \<Rightarrow> False
      | Some f \<Rightarrow> gui_keyboard_function_search_by_ptr s f = None)"

definition keys_example :: weechat where
  "keys_example =
     config_weechat_init
       \<lparr>gui_keys :=
          [\<lparr>key_key = ''^A'', key_command = None, key_function = Some 7, key_args = None\<rparr>,
           \<lparr>key_key = ''^B'', key_command = None, key_function = Some 3,
             key_args = Some ''10''\<rparr>,
           \<lparr>key_key = ''^C'', key_command = Some ''/quit'', key_function = None,
             key_args = None\<rparr>],
        gui_key_functions := [(''return'', 1), (''scroll_up'', 3)]\<rparr>"

definition expanded_example :: "string \<Rightarrow> string option" where
  "expanded_example k =
     (case k of c # r \<Rightarrow> if c = CHR ''^'' then Some (''ctrl-'' @ r) else None | [] \<Rightarrow> None)"

text \<open>The name under which the keys writer writes a key: the expanded name, or the key itself.\<close>

definition written_key_name :: "(string \<Rightarrow> string option) \<Rightarrow> string \<Rightarrow> string" where
  "written_key_name expanded k = (case expanded k of Some e \<Rightarrow> e | None \<Rightarrow> k)"

text \<open>
  A base-10 integer as \<^verbatim>\<open>strtol\<close> reads one: optional white space, an optional sign, and
  one digit or more, with nothing after the digits.
\<close>

definition base10_integer :: "string \<Rightarrow> bool" where
  "base10_integer str =
     (let t = dropWhile isspace str;
          u = (case t of [] \<Rightarrow> [] | c # r \<Rightarrow> if c = CHR ''-'' \<or> c = CHR ''+'' then r else t)
      in u \<noteq> [] \<and> list_all isdigit u)"

definition bars_example :: weechat where
  "bars_example =
     config_weechat_init
       \<lparr>gui_bar_type_str := [''root'', ''window_active'', ''window_inactive''],
        gui_bar_position_str := [''bottom'', ''top'', ''left'', ''right'']\<rparr>"

subsection \<open>The day-change notice\<close>

text \<open>The fields of \<^verbatim>\<open>struct tm\<close> of the C library.\<close>

record tm =
  tm_sec :: int
  tm_min :: int
  tm_hour :: int
  tm_mday :: int
  tm_mon :: int
  tm_year :: int
  tm_wday :: int
  tm_yday :: int
  tm_isdst :: int

definition WEECHAT_RC_OK :: int where
  "WEECHAT_RC_OK = 0"

text \<open>
  Modelled from the spec: \<^verbatim>\<open>gui_chat_printf\<close> belongs to \<^verbatim>\<open>gui-chat.c\<close>, which is not
  among the sources. Section 4.6: a target receives a single notice line per call, so the
  message becomes the last line of the buffer, which is given by its position in
  \<open>gui_buffers\<close>. The hotlist is the one of \<^verbatim>\<open>gui-hotlist.c\<close>: a printed line puts its
  buffer into the hotlist only while \<^verbatim>\<open>gui_add_hotlist\<close> is not zero, which is what the
  flag set by the timer callback stands for.
\<close>

definition gui_chat_printf :: "nat \<Rightarrow> string \<Rightarrow> weechat \<Rightarrow> weechat" where
  "gui_chat_printf i message s =
     (let b = gui_buffers s ! i;
          s1 = s\<lparr>gui_buffers := (gui_buffers s)[i := b\<lparr>buffer_lines := buffer_lines b @ [message]\<rparr>]\<rparr>
      in if gui_add_hotlist s1 \<noteq> 0 \<and> i \<notin> set (gui_hotlist s1)
         then s1\<lparr>gui_hotlist := gui_hotlist s1 @ [i]\<rparr>
         else s1)"

text \<open>
  \<^verbatim>\<open>config_day_change_timer_cb\<close>, lines 358-391. \<open>strftime\<close> gives the text that
  \<^verbatim>\<open>strftime (text_time, sizeof (text_time), format, local_time)\<close> leaves in \<^verbatim>\<open>text_time\<close>,
  \<open>string_iconv_to_internal\<close> may return \<^verbatim>\<open>NULL\<close>, \<open>local_time\<close> is the result of
  \<^verbatim>\<open>gettimeofday\<close> and \<^verbatim>\<open>localtime\<close>. The message is the untranslated one (\<^verbatim>\<open>_()\<close> without
  a catalogue). The loop visits the buffers in list order, by position.
\<close>

definition day_changed_message :: "string \<Rightarrow> string" where
  "day_changed_message text_time = [CHR 0x09, CHR 0x09] @ ''Day changed to '' @ text_time"

fun day_change_loop :: "string \<Rightarrow> nat list \<Rightarrow> weechat \<Rightarrow> weechat" where
  "day_change_loop text_time [] s = s"
| "day_change_loop text_time (i # ptrs) s =
     day_change_loop text_time ptrs
       (if buffer_type (gui_buffers s ! i) = GUI_BUFFER_TYPE_FORMATED
        then gui_chat_printf i (day_changed_message text_time) s
        else s)"

definition config_day_change_timer_cb ::
  "(nat \<Rightarrow> string \<Rightarrow> tm \<Rightarrow> string) \<Rightarrow> (string \<Rightarrow> string option) \<Rightarrow> tm \<Rightarrow>
   weechat \<Rightarrow> int \<times> weechat" where
  "config_day_change_timer_cb strftime string_iconv_to_internal local_time s =
     (let text_time =
            strftime 1024
              (CONFIG_STRING (config_options s Config_look_day_change_time_format)) local_time;
          text_time2 = string_iconv_to_internal text_time;
          s1 = s\<lparr>gui_add_hotlist := 0\<rparr>;
          s2 = day_change_loop (case text_time2 of Some t \<Rightarrow> t | None \<Rightarrow> text_time)
                 [0..<length (gui_buffers s1)] s1;
          s3 = s2\<lparr>gui_add_hotlist := 1\<rparr>
      in (WEECHAT_RC_OK, s3))"

text \<open>What a formatted buffer looks like after one notice, other buffers being left alone.\<close>

definition with_notice :: "string \<Rightarrow> t_gui_buffer \<Rightarrow> t_gui_buffer" where
  "with_notice message b =
     (if buffer_type b = GUI_BUFFER_TYPE_FORMATED
      then b\<lparr>buffer_lines := buffer_lines b @ [message]\<rparr>
      else b)"

text \<open>
  An example for the statements below: a formatted and a free buffer, the hotlist empty;
  a stand-in for \<open>strftime\<close> that copies the format as far as it fits, and a time.
\<close>

definition buffers_example :: weechat where
  "buffers_example =
     config_weechat_init
       \<lparr>gui_buffers :=
          [\<lparr>buffer_number = 1, buffer_type = GUI_BUFFER_TYPE_FORMATED, buffer_lines = [''hello'']\<rparr>,
           \<lparr>buffer_number = 2, buffer_type = GUI_BUFFER_TYPE_FREE, buffer_lines = []\<rparr>]\<rparr>"

definition strftime_copy :: "nat \<Rightarrow> string \<Rightarrow> tm \<Rightarrow> string" where
  "strftime_copy maxsize format t = take (maxsize - 1) format"

definition tm_example :: tm where
  "tm_example =
     \<lparr>tm_sec = 0, tm_min = 0, tm_hour = 0, tm_mday = 3, tm_mon = 10, tm_year = 126,
      tm_wday = 2, tm_yday = 306, tm_isdst = 0\<rparr>"

subsection \<open>Setting an option\<close>

text \<open>\<^verbatim>\<open>config_change_buffer_content\<close>, lines 244-248: a redraw of the current buffer.\<close>

definition config_change_buffer_content :: "weechat \<Rightarrow> weechat" where
  "config_change_buffer_content s = s\<lparr>gui_events := gui_events s @ [Gui_window_redraw_buffer]\<rparr>"

fun change_callback :: "change_cb \<Rightarrow> weechat \<Rightarrow> weechat" where
  "change_callback Config_change_buffer_content = config_change_buffer_content"
| "change_callback Config_change_day_change = config_change_day_change"

text \<open>
  Modelled from the spec: \<^verbatim>\<open>config_file_option_set\<close> and the validation of values belong
  to \<^verbatim>\<open>wee-config-file.c\<close>, which is not among the sources. Section 4.2: a boolean accepts
  \<^verbatim>\<open>on\<close> and \<^verbatim>\<open>off\<close> in any case; an integer is a base-10 signed integer within the
  declared minimum and maximum; an enumerated integer is one of the labels, case-sensitively,
  and is stored as the position of the label; a string is accepted as it is, unless a
  declared length bound rejects it; a colour is a name of the colour table, stored as its
  position.
\<close>

definition tolower :: "char \<Rightarrow> char" where
  "tolower c =
     (if 65 \<le> (of_char c :: nat) \<and> (of_char c :: nat) \<le> 90 then char_of ((of_char c :: nat) + 32)
      else c)"

definition parse_integer :: "string \<Rightarrow> int option" where
  "parse_integer str =
     (let neg = (case str of [] \<Rightarrow> False | c # _ \<Rightarrow> c = CHR ''-'');
          u = (case str of [] \<Rightarrow> [] | c # r \<Rightarrow> if c = CHR ''-'' \<or> c = CHR ''+'' then r else str)
      in if u \<noteq> [] \<and> list_all isdigit u
         then Some (if neg then - digits_value 0 u else digits_value 0 u)
         else None)"

definition option_validate :: "string list \<Rightarrow> t_config_option \<Rightarrow> string \<Rightarrow> config_value option" where
  "option_validate colors opt raw =
     (case opt_type opt of
        CONFIG_OPTION_BOOLEAN \<Rightarrow>
          (if map tolower raw = ''on'' then Some (Int_value 1)
           else if map tolower raw = ''off'' then Some (Int_value 0)
           else None)
      | CONFIG_OPTION_INTEGER \<Rightarrow>
          (if opt_string_values opt = [] then
             (case parse_integer raw of
                None \<Rightarrow> None
              | Some n \<Rightarrow> if opt_min opt \<le> n \<and> n \<le> opt_max opt then Some (Int_value n) else None)
           else map_option (\<lambda>i. Int_value (int i)) (string_index (opt_string_values opt) raw))
      | CONFIG_OPTION_STRING \<Rightarrow>
          (if 0 < opt_max opt \<and> opt_max opt < int (length raw) then None
           else Some (String_value raw))
      | CONFIG_OPTION_COLOR \<Rightarrow>
          map_option (\<lambda>i. Int_value (int i)) (string_index colors raw))"

datatype set_result = Set_ok | InvalidValue

text \<open>
  Section 4.1 and 4.4: on success the stored value is replaced and the change callback, if
  there is one, is called once, after the value is stored; on failure nothing changes.
  \<open>callback_calls\<close> records each call.
\<close>

definition option_store :: "option_ptr \<Rightarrow> config_value \<Rightarrow> weechat \<Rightarrow> weechat" where
  "option_store p v s =
     s\<lparr>config_options := (config_options s)(p := (config_options s p)\<lparr>opt_value := v\<rparr>)\<rparr>"

definition call_change_callback :: "change_cb \<Rightarrow> weechat \<Rightarrow> weechat" where
  "call_change_callback cb s = change_callback cb (s\<lparr>callback_calls := callback_calls s @ [cb]\<rparr>)"

definition config_file_option_set :: "option_ptr \<Rightarrow> string \<Rightarrow> weechat \<Rightarrow> set_result \<times> weechat" where
  "config_file_option_set p raw s =
     (case option_validate (gui_color_names s) (config_options s p) raw of
        None \<Rightarrow> (InvalidValue, s)
      | Some v \<Rightarrow>
          (Set_ok,
           case opt_callback_change (config_options s p) of
             None \<Rightarrow> option_store p v s
           | Some cb \<Rightarrow> call_change_callback cb (option_store p v s)))"

subsection \<open>Reading a section back\<close>













text \<open>A binding under the name the keys writer writes for its key.\<close>

definition key_written_as :: "(string \<Rightarrow> string option) \<Rightarrow> t_gui_key \<Rightarrow> t_gui_key" where
  "key_written_as expanded b = b\<lparr>key_key := written_key_name expanded (key_key b)\<rparr>"


section \<open>Properties\<close>

subsection \<open>The day-change timer\<close>

lemma fold_max_init: "a \<le> fold max xs (a::nat)"
proof (induction xs arbitrary: a)
  case Nil then show ?case by simp
next
  case (Cons y ys)
  have "a \<le> max y a" by simp
  also have "\<dots> \<le> fold max ys (max y a)" by (rule Cons.IH)
  finally show ?case by simp
qed

lemma fold_max_ge: "x \<in> set xs \<Longrightarrow> x \<le> fold max xs (a::nat)"
proof (induction xs arbitrary: a)
  case Nil then show ?case by simp
next
  case (Cons y ys)
  show ?case
  proof (cases "x = y")
    case True
    have "y \<le> max y a" by simp
    also have "\<dots> \<le> fold max ys (max y a)" by (rule fold_max_init)
    finally show ?thesis using True by simp
  next
    case False
    with Cons.prems have "x \<in> set ys" by simp
    then show ?thesis using Cons.IH by simp
  qed
qed

lemma new_hook_ptr_fresh: "new_hook_ptr hs \<notin> hook_ptr ` set hs"
proof
  assume "new_hook_ptr hs \<in> hook_ptr ` set hs"
  then have "new_hook_ptr hs \<in> set (map hook_ptr hs)" by simp
  then have "new_hook_ptr hs \<le> fold max (map hook_ptr hs) 0" by (rule fold_max_ge)
  then show False by (simp add: new_hook_ptr_def)
qed

lemma day_change_arm:
  assumes "CONFIG_BOOLEAN (config_options s Config_look_day_change)"
      and "config_day_change_timer s = None"
  shows "config_change_day_change s =
           s\<lparr>weechat_hooks := weechat_hooks s @
                [\<lparr>hook_ptr = new_hook_ptr (weechat_hooks s), hook_interval = 86400000,
                  hook_align_second = 86400, hook_max_calls = 0,
                  hook_callback = Config_day_change_timer_cb\<rparr>],
             config_day_change_timer := Some (new_hook_ptr (weechat_hooks s))\<rparr>"
  using assms by (simp add: config_change_day_change_def hook_timer_def Let_def)

lemma day_change_disarm:
  assumes "\<not> CONFIG_BOOLEAN (config_options s Config_look_day_change)"
      and "config_day_change_timer s = Some t"
  shows "config_change_day_change s =
           s\<lparr>weechat_hooks := filter (\<lambda>h. hook_ptr h \<noteq> t) (weechat_hooks s),
             config_day_change_timer := None\<rparr>"
  using assms by (simp add: config_change_day_change_def unhook_def)

lemma day_change_noop:
  assumes "CONFIG_BOOLEAN (config_options s Config_look_day_change) \<longleftrightarrow>
             config_day_change_timer s \<noteq> None"
  shows "config_change_day_change s = s"
  using assms by (auto simp add: config_change_day_change_def)

lemma filter_other_ptr:
  assumes "distinct (map hook_ptr hs)"
      and "map hook_ptr (filter P hs) = [t]"
  shows "map hook_ptr (filter P (filter (\<lambda>h. hook_ptr h \<noteq> t) hs)) = []"
  using assms
proof (induction hs)
  case Nil then show ?case by simp
next
  case (Cons h hs)
  show ?case
  proof (cases "P h")
    case True
    with Cons.prems(2) have ht: "hook_ptr h = t" and rest: "map hook_ptr (filter P hs) = []" by auto
    from Cons.prems(1) have "hook_ptr h \<notin> hook_ptr ` set hs" by simp
    with ht have "\<forall>x\<in>set hs. hook_ptr x \<noteq> t" by blast
    then have "filter (\<lambda>h. hook_ptr h \<noteq> t) hs = hs" by (simp add: filter_id_conv)
    with rest ht show ?thesis by simp
  next
    case False
    with Cons.prems have "map hook_ptr (filter P (filter (\<lambda>h. hook_ptr h \<noteq> t) hs)) = []"
      using Cons.IH by simp
    with False show ?thesis by simp
  qed
qed

lemma timer_state_ok_step:
  assumes "timer_state_ok s"
  shows "timer_state_ok (config_change_day_change s)"
proof (cases "CONFIG_BOOLEAN (config_options s Config_look_day_change)")
  case True
  show ?thesis
  proof (cases "config_day_change_timer s")
    case None
    have fresh: "new_hook_ptr (weechat_hooks s) \<notin> hook_ptr ` set (weechat_hooks s)"
      by (rule new_hook_ptr_fresh)
    from assms None show ?thesis
      unfolding day_change_arm [OF True None]
      using fresh by (simp add: timer_state_ok_def day_change_timers_def)
  next
    case (Some t)
    with True have "config_change_day_change s = s" by (simp add: day_change_noop)
    with assms show ?thesis by simp
  qed
next
  case False
  show ?thesis
  proof (cases "config_day_change_timer s")
    case None
    with False have "config_change_day_change s = s" by (simp add: day_change_noop)
    with assms show ?thesis by simp
  next
    case (Some t)
    from assms Some have d: "distinct (map hook_ptr (weechat_hooks s))"
      and one: "map hook_ptr (filter (\<lambda>h. hook_callback h = Config_day_change_timer_cb) (weechat_hooks s)) = [t]"
      by (simp_all add: timer_state_ok_def day_change_timers_def)
    from d have "distinct (map hook_ptr (filter (\<lambda>h. hook_ptr h \<noteq> t) (weechat_hooks s)))"
      by (rule distinct_map_filter)
    then show ?thesis
      unfolding day_change_disarm [OF False Some]
      using filter_other_ptr [OF d one]
      by (simp add: timer_state_ok_def day_change_timers_def)
  qed
qed

lemma timer_state_ok_store: "timer_state_ok (day_change_store b s) = timer_state_ok s"
  by (simp add: timer_state_ok_def day_change_store_def day_change_timers_def)

lemma timer_state_ok_foldl:
  "timer_state_ok s \<Longrightarrow> timer_state_ok (foldl day_change_changed s bs)"
  by (induction bs arbitrary: s)
     (simp_all add: day_change_changed_def timer_state_ok_step timer_state_ok_store)

lemma timer_state_ok_le1: "timer_state_ok s \<Longrightarrow> length (day_change_timers s) \<le> 1"
  by (simp add: timer_state_ok_def split: option.splits)


lemma filter_one_less:
  assumes "distinct (map f xs)" and "t \<in> f ` set xs"
  shows "Suc (length (filter (\<lambda>h. f h \<noteq> t) xs)) = length xs"
  using assms
proof (induction xs)
  case Nil then show ?case by simp
next
  case (Cons x xs)
  show ?case
  proof (cases "f x = t")
    case True
    from Cons.prems(1) have "f x \<notin> f ` set xs" by simp
    with True have "\<forall>y\<in>set xs. f y \<noteq> t" by blast
    then have "filter (\<lambda>h. f h \<noteq> t) xs = xs" by (simp add: filter_id_conv)
    with True show ?thesis by simp
  next
    case False
    with Cons.prems have "t \<in> f ` set xs" and "distinct (map f xs)" by auto
    then have "Suc (length (filter (\<lambda>h. f h \<noteq> t) xs)) = length xs" using Cons.IH by simp
    with False show ?thesis by simp
  qed
qed

text \<open>
  Claim C1. From a state in which the live day-change timers are exactly what the handle
  \<^verbatim>\<open>config_day_change_timer\<close> says, any sequence of changes of the option (each followed
  by \<^verbatim>\<open>config_change_day_change\<close>) leads to such a state again, so at most one
  day-change timer is ever armed. Enabling while armed and disabling while unarmed change
  nothing; enabling while unarmed adds one hook with a fresh address, a period of 24 hours
  and the day-change callback, and stores its address in the handle; disabling while armed
  removes exactly the hook the handle points to and clears the handle.
\<close>

theorem config_change_day_change_one_timer:
  assumes "timer_state_ok s"
  shows "timer_state_ok (foldl day_change_changed s bs) \<and>
         length (day_change_timers (foldl day_change_changed s bs)) \<le> 1 \<and>
         (CONFIG_BOOLEAN (config_options s Config_look_day_change) \<and>
            config_day_change_timer s \<noteq> None \<longrightarrow> config_change_day_change s = s) \<and>
         (\<not> CONFIG_BOOLEAN (config_options s Config_look_day_change) \<and>
            config_day_change_timer s = None \<longrightarrow> config_change_day_change s = s) \<and>
         (CONFIG_BOOLEAN (config_options s Config_look_day_change) \<and>
            config_day_change_timer s = None \<longrightarrow>
            (\<exists>h. config_change_day_change s =
                   s\<lparr>weechat_hooks := weechat_hooks s @ [h],
                     config_day_change_timer := Some (hook_ptr h)\<rparr> \<and>
                 hook_ptr h \<notin> hook_ptr ` set (weechat_hooks s) \<and>
                 hook_callback h = Config_day_change_timer_cb \<and>
                 hook_interval h = 24 * 3600 * 1000 \<and>
                 day_change_timers (config_change_day_change s) = [hook_ptr h])) \<and>
         (\<forall>t. \<not> CONFIG_BOOLEAN (config_options s Config_look_day_change) \<and>
            config_day_change_timer s = Some t \<longrightarrow>
              config_change_day_change s =
                s\<lparr>weechat_hooks := filter (\<lambda>h. hook_ptr h \<noteq> t) (weechat_hooks s),
                  config_day_change_timer := None\<rparr> \<and>
              Suc (length (weechat_hooks (config_change_day_change s))) =
                length (weechat_hooks s) \<and>
              day_change_timers (config_change_day_change s) = [])"
proof (intro conjI allI impI)
  show ok: "timer_state_ok (foldl day_change_changed s bs)"
    using assms by (rule timer_state_ok_foldl)
  then show "length (day_change_timers (foldl day_change_changed s bs)) \<le> 1"
    by (rule timer_state_ok_le1)
next
  assume "CONFIG_BOOLEAN (config_options s Config_look_day_change) \<and>
          config_day_change_timer s \<noteq> None"
  then show "config_change_day_change s = s" by (simp add: day_change_noop)
next
  assume "\<not> CONFIG_BOOLEAN (config_options s Config_look_day_change) \<and>
          config_day_change_timer s = None"
  then show "config_change_day_change s = s" by (simp add: day_change_noop)
next
  assume a: "CONFIG_BOOLEAN (config_options s Config_look_day_change) \<and>
             config_day_change_timer s = None"
  then have on: "CONFIG_BOOLEAN (config_options s Config_look_day_change)"
    and off: "config_day_change_timer s = None" by simp_all
  let ?h = "\<lparr>hook_ptr = new_hook_ptr (weechat_hooks s), hook_interval = 86400000,
             hook_align_second = 86400, hook_max_calls = 0,
             hook_callback = Config_day_change_timer_cb\<rparr>"
  have step: "config_change_day_change s =
      s\<lparr>weechat_hooks := weechat_hooks s @ [?h], config_day_change_timer := Some (hook_ptr ?h)\<rparr>"
    using day_change_arm [OF on off] by simp
  have fresh: "hook_ptr ?h \<notin> hook_ptr ` set (weechat_hooks s)"
    using new_hook_ptr_fresh [of "weechat_hooks s"] by simp
  from assms off have none: "day_change_timers s = []" by (simp add: timer_state_ok_def)
  have timers: "day_change_timers (config_change_day_change s) = [hook_ptr ?h]"
    using none unfolding step by (simp add: day_change_timers_def)
  show "\<exists>h. config_change_day_change s =
                   s\<lparr>weechat_hooks := weechat_hooks s @ [h],
                     config_day_change_timer := Some (hook_ptr h)\<rparr> \<and>
                 hook_ptr h \<notin> hook_ptr ` set (weechat_hooks s) \<and>
                 hook_callback h = Config_day_change_timer_cb \<and>
                 hook_interval h = 24 * 3600 * 1000 \<and>
                 day_change_timers (config_change_day_change s) = [hook_ptr h]"
  proof (intro exI conjI)
    show "config_change_day_change s =
      s\<lparr>weechat_hooks := weechat_hooks s @ [?h], config_day_change_timer := Some (hook_ptr ?h)\<rparr>"
      by (rule step)
    show "hook_ptr ?h \<notin> hook_ptr ` set (weechat_hooks s)" by (rule fresh)
    show "hook_callback ?h = Config_day_change_timer_cb" by simp
    show "hook_interval ?h = 24 * 3600 * 1000" by simp
    show "day_change_timers (config_change_day_change s) = [hook_ptr ?h]" by (rule timers)
  qed
next
  fix t
  assume a: "\<not> CONFIG_BOOLEAN (config_options s Config_look_day_change) \<and>
             config_day_change_timer s = Some t"
  then have off: "\<not> CONFIG_BOOLEAN (config_options s Config_look_day_change)"
    and armed: "config_day_change_timer s = Some t" by simp_all
  show step: "config_change_day_change s =
      s\<lparr>weechat_hooks := filter (\<lambda>h. hook_ptr h \<noteq> t) (weechat_hooks s),
        config_day_change_timer := None\<rparr>"
    by (rule day_change_disarm [OF off armed])
  from assms armed have d: "distinct (map hook_ptr (weechat_hooks s))"
    and one: "map hook_ptr (filter (\<lambda>h. hook_callback h = Config_day_change_timer_cb)
                (weechat_hooks s)) = [t]"
    by (simp_all add: timer_state_ok_def day_change_timers_def)
  have "t \<in> set (map hook_ptr (filter (\<lambda>h. hook_callback h = Config_day_change_timer_cb)
                (weechat_hooks s)))" unfolding one by simp
  then have "t \<in> hook_ptr ` set (weechat_hooks s)" by auto
  with d show "Suc (length (weechat_hooks (config_change_day_change s))) =
                length (weechat_hooks s)"
    unfolding step by (simp add: filter_one_less)
  show "day_change_timers (config_change_day_change s) = []"
    unfolding step using filter_other_ptr [OF d one] by (simp add: day_change_timers_def)
qed

text \<open>
  The initial state satisfies the hypothesis; enabling twice leaves the one timer with
  address 1, disabling twice afterwards leaves none.
\<close>

theorem config_change_day_change_one_timer_witness:
  "timer_state_ok config_weechat_init \<and>
   timer_state_ok (foldl day_change_changed config_weechat_init [True, True, False, False, True]) \<and>
   length (day_change_timers
     (foldl day_change_changed config_weechat_init [True, True, False, False, True])) \<le> 1 \<and>
   day_change_timers (foldl day_change_changed config_weechat_init [True, True]) = [1] \<and>
   day_change_timers (foldl day_change_changed config_weechat_init [True, True, False, False]) = []"
proof -
  have h: "timer_state_ok config_weechat_init"
    by (simp add: timer_state_ok_def config_weechat_init_def day_change_timers_def)
  have run2: "day_change_timers (foldl day_change_changed config_weechat_init [True, True]) = [1]"
    by (simp add: day_change_changed_def day_change_store_def config_change_day_change_def
        config_weechat_init_def hook_timer_def unhook_def new_hook_ptr_def
        day_change_timers_def CONFIG_BOOLEAN_def CONFIG_INTEGER_def Let_def)
  have run4: "day_change_timers
      (foldl day_change_changed config_weechat_init [True, True, False, False]) = []"
    by (simp add: day_change_changed_def day_change_store_def config_change_day_change_def
        config_weechat_init_def hook_timer_def unhook_def new_hook_ptr_def
        day_change_timers_def CONFIG_BOOLEAN_def CONFIG_INTEGER_def Let_def)
  from config_change_day_change_one_timer [OF h, of "[True, True, False, False, True]"]
  show ?thesis using h run2 run4 by simp
qed

subsection \<open>Reload\<close>

text \<open>
  Claim C2, as amended. The state handed to the re-read is the state before the reload
  with the list of key bindings emptied: every key binding is released, the bars (and
  everything else) are as they were.
\<close>

theorem config_weechat_reload_frees_keys:
  "config_weechat_reload config_file_reload s = config_file_reload (s\<lparr>gui_keys := []\<rparr>) \<and>
   gui_keys (s\<lparr>gui_keys := []\<rparr>) = [] \<and>
   gui_bars (s\<lparr>gui_keys := []\<rparr>) = gui_bars s"
  by (simp add: config_weechat_reload_def gui_keyboard_free_all_def)

text \<open>
  Claim C2 as stated fails: a bar that exists when the reload begins is still there when
  the re-read starts (here the re-read is the one that finds nothing to read and returns 0).
\<close>

theorem config_weechat_reload_keeps_bars_counterexample:
  "gui_bars (snd (config_weechat_reload (Pair 0)
      (config_weechat_init
        \<lparr>gui_keys := [\<lparr>key_key = ''ctrl-c'', key_command = Some ''/quit'',
                       key_function = None, key_args = None\<rparr>],
         gui_bars := [\<lparr>bar_name = ''mybar'', bar_type = 0, bar_position = 1, bar_size = 1,
                       bar_separator = 1, bar_items = ''[time]''\<rparr>]\<rparr>))) =
     [\<lparr>bar_name = ''mybar'', bar_type = 0, bar_position = 1, bar_size = 1,
       bar_separator = 1, bar_items = ''[time]''\<rparr>] \<and>
   gui_keys (snd (config_weechat_reload (Pair 0)
      (config_weechat_init
        \<lparr>gui_keys := [\<lparr>key_key = ''ctrl-c'', key_command = Some ''/quit'',
                       key_function = None, key_args = None\<rparr>],
         gui_bars := [\<lparr>bar_name = ''mybar'', bar_type = 0, bar_position = 1, bar_size = 1,
                       bar_separator = 1, bar_items = ''[time]''\<rparr>]\<rparr>))) = []"
  by (simp add: config_weechat_reload_def gui_keyboard_free_all_def config_weechat_init_def)

subsection \<open>The keys section\<close>

lemma write_keys_loop_concat:
  "write_keys_loop expanded s ks = concat (map (write_key expanded s) ks)"
  by (induction ks) simp_all

lemma write_key_length:
  "length (write_key expanded s k) = (if key_unresolved s k then 0 else 1)"
  by (simp add: write_key_def key_unresolved_def Let_def split: option.splits)

lemma write_keys_loop_length:
  "length (write_keys_loop expanded s ks) = length (filter (\<lambda>k. \<not> key_unresolved s k) ks)"
  by (induction ks) (simp_all add: write_key_length)

text \<open>
  Claim C9. The keys writer emits the section header, then the lines of the bindings in
  list order. A binding with a function pointer whose name cannot be found gives no line;
  one whose name is found gives exactly one line, the name followed by a space and the
  arguments when there are arguments; one with no function and a command gives exactly one
  line, the command. So the number of lines after the header is the number of bindings
  that are not of the first kind.
\<close>

theorem config_weechat_write_keys_omits_unresolved:
  "config_weechat_write_keys expanded s section_name =
     Section_line section_name # concat (map (write_key expanded s) (gui_keys s)) \<and>
   (\<forall>(k::t_gui_key) f. key_function k = Some f \<and> gui_keyboard_function_search_by_ptr s f = None \<longrightarrow>
      write_key expanded s k = []) \<and>
   (\<forall>(k::t_gui_key) f n. key_function k = Some f \<and> gui_keyboard_function_search_by_ptr s f = Some n \<longrightarrow>
      write_key expanded s k =
        [Option_line (case expanded (key_key k) of Some e \<Rightarrow> e | None \<Rightarrow> key_key k)
           (quoted (n @ (case key_args k of Some a \<Rightarrow> '' '' @ a | None \<Rightarrow> [])))]) \<and>
   (\<forall>(k::t_gui_key) c. key_function k = None \<and> key_command k = Some c \<longrightarrow>
      write_key expanded s k =
        [Option_line (case expanded (key_key k) of Some e \<Rightarrow> e | None \<Rightarrow> key_key k)
           (quoted c)]) \<and>
   length (config_weechat_write_keys expanded s section_name) =
     Suc (length (filter (\<lambda>k. \<not> key_unresolved s k) (gui_keys s)))"
proof (intro conjI allI impI)
  show "config_weechat_write_keys expanded s section_name =
     Section_line section_name # concat (map (write_key expanded s) (gui_keys s))"
    by (simp add: config_weechat_write_keys_def write_keys_loop_concat)
  show "length (config_weechat_write_keys expanded s section_name) =
     Suc (length (filter (\<lambda>k. \<not> key_unresolved s k) (gui_keys s)))"
    by (simp add: config_weechat_write_keys_def write_keys_loop_length)
next
  fix k :: t_gui_key and f
  assume "key_function k = Some f \<and> gui_keyboard_function_search_by_ptr s f = None"
  then show "write_key expanded s k = []" by (simp add: write_key_def Let_def)
next
  fix k :: t_gui_key and f n
  assume "key_function k = Some f \<and> gui_keyboard_function_search_by_ptr s f = Some n"
  then show "write_key expanded s k =
        [Option_line (case expanded (key_key k) of Some e \<Rightarrow> e | None \<Rightarrow> key_key k)
           (quoted (n @ (case key_args k of Some a \<Rightarrow> '' '' @ a | None \<Rightarrow> [])))]"
    by (simp add: write_key_def Let_def split: option.splits)
next
  fix k :: t_gui_key and c
  assume "key_function k = None \<and> key_command k = Some c"
  then show "write_key expanded s k =
        [Option_line (case expanded (key_key k) of Some e \<Rightarrow> e | None \<Rightarrow> key_key k)
           (quoted c)]"
    by (simp add: write_key_def Let_def)
qed

text \<open>
  Three bindings: a function (7) that is not in the table, a function with arguments and a
  command. The writer emits the header and two lines.
\<close>

theorem config_weechat_write_keys_omits_unresolved_witness:
  "config_weechat_write_keys expanded_example keys_example ''keys'' =
     [Section_line ''keys'',
      Option_line ''ctrl-B'' (quoted ''scroll_up 10''),
      Option_line ''ctrl-C'' (quoted ''/quit'')] \<and>
   key_function (hd (gui_keys keys_example)) = Some 7 \<and>
   gui_keyboard_function_search_by_ptr keys_example 7 = None \<and>
   write_key expanded_example keys_example (hd (gui_keys keys_example)) = []"
proof -
  have f: "key_function (hd (gui_keys keys_example)) = Some 7"
    by (simp add: keys_example_def)
  have n: "gui_keyboard_function_search_by_ptr keys_example 7 = None"
    by (simp add: keys_example_def gui_keyboard_function_search_by_ptr_def)
  have w: "concat (map (write_key expanded_example keys_example) (gui_keys keys_example)) =
      [Option_line ''ctrl-B'' (quoted ''scroll_up 10''),
       Option_line ''ctrl-C'' (quoted ''/quit'')]"
    by (simp add: keys_example_def write_key_def expanded_example_def
        gui_keyboard_function_search_by_ptr_def Let_def)
  from config_weechat_write_keys_omits_unresolved
         [of expanded_example keys_example "''keys''"]
  show ?thesis using f n w by simp
qed

lemma write_key_functions:
  assumes "gui_key_functions s' = gui_key_functions s"
  shows "write_key expanded s' k = write_key expanded s k"
proof -
  have "gui_keyboard_function_search_by_ptr s' = gui_keyboard_function_search_by_ptr s"
    using assms by (simp add: gui_keyboard_function_search_by_ptr_def fun_eq_iff)
  then show ?thesis by (simp add: write_key_def Let_def split: option.splits)
qed

lemma write_key_gui_keys [simp]:
  "write_key expanded (s\<lparr>gui_keys := ks\<rparr>) = write_key expanded s"
  by (rule ext, rule write_key_functions) simp

lemma write_key_name:
  "Option_line n v \<in> set (write_key expanded s k) \<Longrightarrow> n = written_key_name expanded (key_key k)"
  by (auto simp add: write_key_def written_key_name_def Let_def split: option.splits)

lemma read_key_unbind:
  assumes "v = None \<or> v = Some []"
  shows "config_weechat_read_key (Some k) v s =
           s\<lparr>gui_keys := filter (\<lambda>b. key_key b \<noteq> k) (gui_keys s)\<rparr>"
  using assms by (auto simp add: config_weechat_read_key_def gui_keyboard_unbind_def)

lemma read_key_bind:
  assumes "c \<noteq> []"
  shows "config_weechat_read_key (Some k) (Some c) s =
           s\<lparr>gui_keys := filter (\<lambda>b. key_key b \<noteq> k) (gui_keys s) @
               [case gui_keyboard_function_search_by_name s (takeWhile (\<lambda>c. c \<noteq> CHR '' '') c) of
                  Some f \<Rightarrow>
                    \<lparr>key_key = k, key_command = None, key_function = Some f,
                     key_args = (case dropWhile (\<lambda>c. c \<noteq> CHR '' '') c of
                                   [] \<Rightarrow> None | _ # a \<Rightarrow> Some a)\<rparr>
                | None \<Rightarrow>
                    \<lparr>key_key = k, key_command = Some c, key_function = None, key_args = None\<rparr>]\<rparr>"
  using assms
  by (simp add: config_weechat_read_key_def gui_keyboard_bind_def gui_keyboard_unbind_def
      gui_keyboard_function_search_by_name_def Let_def)

text \<open>
  Claim C5. With an option name \<open>k\<close>: an absent or empty value removes the bindings of
  \<open>k\<close> and nothing else (the state is unchanged when \<open>k\<close> has no binding), and the
  writer then emits the lines of the other bindings only, so no line under the written name
  of \<open>k\<close> when no other key is written under that name. A non-empty value \<open>c\<close> leaves
  exactly one binding of \<open>k\<close>, the last of the list, all bindings of other keys being
  kept: it holds the function and the arguments when \<open>c\<close> up to its first space names a
  function, the command \<open>c\<close> otherwise.
\<close>

theorem config_weechat_read_key_binds:
  "(v = None \<or> v = Some [] \<longrightarrow>
      gui_keys (config_weechat_read_key (Some k) v s) =
        filter (\<lambda>b. key_key b \<noteq> k) (gui_keys s) \<and>
      (k \<notin> key_key ` set (gui_keys s) \<longrightarrow> config_weechat_read_key (Some k) v s = s) \<and>
      config_weechat_write_keys expanded (config_weechat_read_key (Some k) v s) section_name =
        Section_line section_name #
          concat (map (write_key expanded s) (filter (\<lambda>b. key_key b \<noteq> k) (gui_keys s))) \<and>
      ((\<forall>k'. k' \<noteq> k \<longrightarrow> written_key_name expanded k' \<noteq> written_key_name expanded k) \<longrightarrow>
        (\<forall>w. Option_line (written_key_name expanded k) w \<notin>
           set (config_weechat_write_keys expanded (config_weechat_read_key (Some k) v s)
                  section_name)))) \<and>
   (\<forall>c. v = Some c \<and> c \<noteq> [] \<longrightarrow>
      (\<exists>b. gui_keys (config_weechat_read_key (Some k) v s) =
             filter (\<lambda>b. key_key b \<noteq> k) (gui_keys s) @ [b] \<and>
           filter (\<lambda>b. key_key b = k) (gui_keys (config_weechat_read_key (Some k) v s)) = [b] \<and>
           key_key b = k \<and>
           (case gui_keyboard_function_search_by_name s (takeWhile (\<lambda>x. x \<noteq> CHR '' '') c) of
              Some f \<Rightarrow>
                key_function b = Some f \<and> key_command b = None \<and>
                key_args b = (case dropWhile (\<lambda>x. x \<noteq> CHR '' '') c of
                                [] \<Rightarrow> None | _ # a \<Rightarrow> Some a)
            | None \<Rightarrow>
                key_function b = None \<and> key_command b = Some c \<and> key_args b = None)))"
proof (intro conjI allI impI)
  assume a: "v = None \<or> v = Some []"
  note st = read_key_unbind [OF a, of k s]
  show "gui_keys (config_weechat_read_key (Some k) v s) =
        filter (\<lambda>b. key_key b \<noteq> k) (gui_keys s)"
    by (simp add: st)
  show w: "config_weechat_write_keys expanded (config_weechat_read_key (Some k) v s) section_name =
        Section_line section_name #
          concat (map (write_key expanded s) (filter (\<lambda>b. key_key b \<noteq> k) (gui_keys s)))"
    by (simp add: st config_weechat_write_keys_def write_keys_loop_concat)
  {
    assume "k \<notin> key_key ` set (gui_keys s)"
    then have "\<forall>b\<in>set (gui_keys s). key_key b \<noteq> k" by blast
    then have "filter (\<lambda>b. key_key b \<noteq> k) (gui_keys s) = gui_keys s"
      by (simp add: filter_id_conv)
    then show "config_weechat_read_key (Some k) v s = s" by (simp add: st)
  }
  {
    fix w'
    assume inj: "\<forall>k'. k' \<noteq> k \<longrightarrow> written_key_name expanded k' \<noteq> written_key_name expanded k"
    show "Option_line (written_key_name expanded k) w' \<notin>
           set (config_weechat_write_keys expanded (config_weechat_read_key (Some k) v s)
                  section_name)"
    proof
      assume "Option_line (written_key_name expanded k) w' \<in>
           set (config_weechat_write_keys expanded (config_weechat_read_key (Some k) v s)
                  section_name)"
      then obtain b where b: "b \<in> set (gui_keys s)" "key_key b \<noteq> k"
        and l: "Option_line (written_key_name expanded k) w' \<in> set (write_key expanded s b)"
        unfolding w by auto
      from l have "written_key_name expanded k = written_key_name expanded (key_key b)"
        by (rule write_key_name)
      with inj b(2) show False by metis
    qed
  }
next
  fix c
  assume a: "v = Some c \<and> c \<noteq> []"
  then have v: "v = Some c" and c: "c \<noteq> []" by simp_all
  note st = read_key_bind [OF c, of k s]
  let ?b = "case gui_keyboard_function_search_by_name s (takeWhile (\<lambda>c. c \<noteq> CHR '' '') c) of
              Some f \<Rightarrow>
                \<lparr>key_key = k, key_command = None, key_function = Some f,
                 key_args = (case dropWhile (\<lambda>c. c \<noteq> CHR '' '') c of
                               [] \<Rightarrow> None | _ # a \<Rightarrow> Some a)\<rparr>
            | None \<Rightarrow>
                \<lparr>key_key = k, key_command = Some c, key_function = None, key_args = None\<rparr>"
  have kb: "key_key ?b = k" by (simp split: option.splits)
  show "\<exists>b. gui_keys (config_weechat_read_key (Some k) v s) =
             filter (\<lambda>b. key_key b \<noteq> k) (gui_keys s) @ [b] \<and>
           filter (\<lambda>b. key_key b = k) (gui_keys (config_weechat_read_key (Some k) v s)) = [b] \<and>
           key_key b = k \<and>
           (case gui_keyboard_function_search_by_name s (takeWhile (\<lambda>x. x \<noteq> CHR '' '') c) of
              Some f \<Rightarrow>
                key_function b = Some f \<and> key_command b = None \<and>
                key_args b = (case dropWhile (\<lambda>x. x \<noteq> CHR '' '') c of
                                [] \<Rightarrow> None | _ # a \<Rightarrow> Some a)
            | None \<Rightarrow>
                key_function b = None \<and> key_command b = Some c \<and> key_args b = None)"
  proof (intro exI [of _ ?b] conjI)
    show "gui_keys (config_weechat_read_key (Some k) v s) =
             filter (\<lambda>b. key_key b \<noteq> k) (gui_keys s) @ [?b]"
      by (simp add: v st)
    show "filter (\<lambda>b. key_key b = k) (gui_keys (config_weechat_read_key (Some k) v s)) = [?b]"
      using kb by (simp add: v st)
    show "key_key ?b = k" by (rule kb)
    show "case gui_keyboard_function_search_by_name s (takeWhile (\<lambda>x. x \<noteq> CHR '' '') c) of
              Some f \<Rightarrow>
                key_function ?b = Some f \<and> key_command ?b = None \<and>
                key_args ?b = (case dropWhile (\<lambda>x. x \<noteq> CHR '' '') c of
                                [] \<Rightarrow> None | _ # a \<Rightarrow> Some a)
            | None \<Rightarrow>
                key_function ?b = None \<and> key_command ?b = Some c \<and> key_args ?b = None"
      by (simp split: option.splits)
  qed
qed

text \<open>
  Scenario C of the spec, on the example state: an empty value for \<^verbatim>\<open>^C\<close> removes its
  binding and the writer then emits the line of \<^verbatim>\<open>^B\<close> only (the function of \<^verbatim>\<open>^A\<close> has
  no name); binding \<^verbatim>\<open>^B\<close> to \<^verbatim>\<open>return\<close> replaces its former binding.
\<close>

theorem config_weechat_read_key_binds_witness:
  "gui_keys (config_weechat_read_key (Some ''^C'') (Some []) keys_example) =
     [\<lparr>key_key = ''^A'', key_command = None, key_function = Some 7, key_args = None\<rparr>,
      \<lparr>key_key = ''^B'', key_command = None, key_function = Some 3, key_args = Some ''10''\<rparr>] \<and>
   config_weechat_write_keys expanded_example
     (config_weechat_read_key (Some ''^C'') (Some []) keys_example) ''keys'' =
     [Section_line ''keys'', Option_line ''ctrl-B'' (quoted ''scroll_up 10'')] \<and>
   (\<exists>b. gui_keys (config_weechat_read_key (Some ''^B'') (Some ''return'') keys_example) =
      [\<lparr>key_key = ''^A'', key_command = None, key_function = Some 7, key_args = None\<rparr>,
       \<lparr>key_key = ''^C'', key_command = Some ''/quit'', key_function = None,
         key_args = None\<rparr>, b] \<and>
      key_key b = ''^B'' \<and> key_function b = Some 1 \<and> key_command b = None \<and> key_args b = None)"
proof -
  have f: "filter (\<lambda>b. key_key b \<noteq> ''^C'') (gui_keys keys_example) =
     [\<lparr>key_key = ''^A'', key_command = None, key_function = Some 7, key_args = None\<rparr>,
      \<lparr>key_key = ''^B'', key_command = None, key_function = Some 3, key_args = Some ''10''\<rparr>]"
    by (simp add: keys_example_def)
  have w: "concat (map (write_key expanded_example keys_example)
        [\<lparr>key_key = ''^A'', key_command = None, key_function = Some 7, key_args = None\<rparr>,
         \<lparr>key_key = ''^B'', key_command = None, key_function = Some 3,
           key_args = Some ''10''\<rparr>]) =
      [Option_line ''ctrl-B'' (quoted ''scroll_up 10'')]"
    by (simp add: keys_example_def write_key_def expanded_example_def
        gui_keyboard_function_search_by_ptr_def Let_def)
  have g: "filter (\<lambda>b. key_key b \<noteq> ''^B'') (gui_keys keys_example) =
     [\<lparr>key_key = ''^A'', key_command = None, key_function = Some 7, key_args = None\<rparr>,
      \<lparr>key_key = ''^C'', key_command = Some ''/quit'', key_function = None,
        key_args = None\<rparr>]"
    by (simp add: keys_example_def)
  have n: "gui_keyboard_function_search_by_name keys_example ''return'' = Some 1"
    by (simp add: keys_example_def gui_keyboard_function_search_by_name_def)
  from config_weechat_read_key_binds
         [of "Some []" "''^C''" keys_example expanded_example "''keys''"]
  have 1: "gui_keys (config_weechat_read_key (Some ''^C'') (Some []) keys_example) =
             filter (\<lambda>b. key_key b \<noteq> ''^C'') (gui_keys keys_example)"
    and 2: "config_weechat_write_keys expanded_example
              (config_weechat_read_key (Some ''^C'') (Some []) keys_example) ''keys'' =
            Section_line ''keys'' #
              concat (map (write_key expanded_example keys_example)
                (filter (\<lambda>b. key_key b \<noteq> ''^C'') (gui_keys keys_example)))"
    by blast+
  from config_weechat_read_key_binds
         [of "Some ''return''" "''^B''" keys_example expanded_example "''keys''"]
  have 3: "\<exists>b. gui_keys (config_weechat_read_key (Some ''^B'') (Some ''return'') keys_example) =
             filter (\<lambda>b. key_key b \<noteq> ''^B'') (gui_keys keys_example) @ [b] \<and>
           key_key b = ''^B'' \<and> key_function b = Some 1 \<and> key_command b = None \<and>
           key_args b = None"
    using n by auto
  from 1 2 3 show ?thesis unfolding f g w by simp
qed

subsection \<open>The bars section\<close>

lemma explode_fields_nonempty: "f \<in> set (explode_fields separators cur str) \<Longrightarrow> f \<noteq> []"
  by (induction str arbitrary: cur) (auto split: if_splits)

lemma string_explode_nonempty: "f \<in> set (string_explode str separators) \<Longrightarrow> f \<noteq> []"
  unfolding string_explode_def by (rule explode_fields_nonempty)

lemma strtol_unfold:
  "strtol f =
     (if takeWhile isdigit (case dropWhile isspace f of [] \<Rightarrow> []
            | c # r \<Rightarrow> if c = CHR ''-'' \<or> c = CHR ''+'' then r else dropWhile isspace f) = []
      then (0, f)
      else (max LONG_MIN (min LONG_MAX
              (if (case dropWhile isspace f of [] \<Rightarrow> False | c # _ \<Rightarrow> c = CHR ''-'')
               then - digits_value 0 (takeWhile isdigit (case dropWhile isspace f of [] \<Rightarrow> []
                  | c # r \<Rightarrow> if c = CHR ''-'' \<or> c = CHR ''+'' then r else dropWhile isspace f))
               else digits_value 0 (takeWhile isdigit (case dropWhile isspace f of [] \<Rightarrow> []
                  | c # r \<Rightarrow> if c = CHR ''-'' \<or> c = CHR ''+'' then r else dropWhile isspace f)))),
            dropWhile isdigit (case dropWhile isspace f of [] \<Rightarrow> []
              | c # r \<Rightarrow> if c = CHR ''-'' \<or> c = CHR ''+'' then r else dropWhile isspace f)))"
  by (simp add: strtol_def Let_def)

lemma strtol_whole:
  assumes "f \<noteq> []" and "snd (strtol f) = []"
  shows "base10_integer f"
proof -
  define u where "u = (case dropWhile isspace f of [] \<Rightarrow> []
     | c # r \<Rightarrow> if c = CHR ''-'' \<or> c = CHR ''+'' then r else dropWhile isspace f)"
  have st: "snd (strtol f) = (if takeWhile isdigit u = [] then f else dropWhile isdigit u)"
    unfolding strtol_unfold u_def by simp
  from st assms have ds: "takeWhile isdigit u \<noteq> []" by auto
  with st assms(2) have "dropWhile isdigit u = []" by simp
  then have all: "list_all isdigit u" by (simp add: list_all_iff)
  from ds have "u \<noteq> []" by auto
  with all show ?thesis by (simp add: base10_integer_def Let_def u_def)
qed

text \<open>
  Claim C6. A value that does not split into exactly five fields, or whose third field is
  not a base-10 integer, leaves the state as it is, whatever the option name: no bar is
  created, and the reader returns nothing that could carry an error.
\<close>

theorem config_weechat_read_bar_discards:
  assumes "length (string_explode v '';'') \<noteq> 5 \<or> \<not> base10_integer (string_explode v '';'' ! 2)"
  shows "config_weechat_read_bar option_name (Some v) s = s"
proof (cases "length (string_explode v '';'') = 5")
  case False
  then show ?thesis
    by (simp add: config_weechat_read_bar_def Let_def split: option.splits)
next
  case True
  with assms have bad: "\<not> base10_integer (string_explode v '';'' ! 2)" by simp
  from True have "string_explode v '';'' ! 2 \<in> set (string_explode v '';'')" by simp
  then have "string_explode v '';'' ! 2 \<noteq> []" by (rule string_explode_nonempty)
  with bad have "snd (strtol (string_explode v '';'' ! 2)) \<noteq> []"
    using strtol_whole by blast
  then show ?thesis
    by (auto simp add: config_weechat_read_bar_def Let_def split: option.splits prod.splits)
qed

text \<open>
  Four fields, an empty third field (which is no field: four fields again) and a size that
  is not a number: each leaves the example state as it is.
\<close>

theorem config_weechat_read_bar_discards_witness:
  "length (string_explode ''root;top;1;1'' '';'') \<noteq> 5 \<and>
   config_weechat_read_bar (Some ''mybar'') (Some ''root;top;1;1'') bars_example = bars_example \<and>
   string_explode ''root;top;;1;[time]'' '';'' = [''root'', ''top'', ''1'', ''[time]''] \<and>
   config_weechat_read_bar (Some ''mybar'') (Some ''root;top;;1;[time]'') bars_example =
     bars_example \<and>
   string_explode ''root;top;big;1;[time]'' '';'' = [''root'', ''top'', ''big'', ''1'', ''[time]''] \<and>
   \<not> base10_integer ''big'' \<and>
   config_weechat_read_bar (Some ''mybar'') (Some ''root;top;big;1;[time]'') bars_example =
     bars_example"
proof -
  have e1: "string_explode ''root;top;1;1'' '';'' = [''root'', ''top'', ''1'', ''1'']"
    by (simp add: string_explode_def)
  have e2: "string_explode ''root;top;;1;[time]'' '';'' = [''root'', ''top'', ''1'', ''[time]'']"
    by (simp add: string_explode_def)
  have e3: "string_explode ''root;top;big;1;[time]'' '';'' =
      [''root'', ''top'', ''big'', ''1'', ''[time]'']"
    by (simp add: string_explode_def)
  have nb: "\<not> base10_integer ''big''"
    by (simp add: base10_integer_def isspace_def isdigit_def Let_def)
  have h1: "length (string_explode ''root;top;1;1'' '';'') \<noteq> 5 \<or>
      \<not> base10_integer (string_explode ''root;top;1;1'' '';'' ! 2)"
    by (simp add: e1)
  have h2: "length (string_explode ''root;top;;1;[time]'' '';'') \<noteq> 5 \<or>
      \<not> base10_integer (string_explode ''root;top;;1;[time]'' '';'' ! 2)"
    by (simp add: e2)
  have h3: "length (string_explode ''root;top;big;1;[time]'' '';'') \<noteq> 5 \<or>
      \<not> base10_integer (string_explode ''root;top;big;1;[time]'' '';'' ! 2)"
    using nb by (simp add: e3)
  show ?thesis
    using config_weechat_read_bar_discards [OF h1, of "Some ''mybar''" bars_example]
      config_weechat_read_bar_discards [OF h2, of "Some ''mybar''" bars_example]
      config_weechat_read_bar_discards [OF h3, of "Some ''mybar''" bars_example]
      e1 e2 e3 nb
    by simp
qed

subsection \<open>The day-change notice\<close>

lemma day_change_loop_quiet:
  assumes "gui_add_hotlist s = 0" and "\<forall>i\<in>set ptrs. i < length (gui_buffers s)"
    and "distinct ptrs"
  shows "day_change_loop text_time ptrs s =
           s\<lparr>gui_buffers := map (\<lambda>i. if i \<in> set ptrs
                                       then with_notice (day_changed_message text_time) (gui_buffers s ! i)
                                       else gui_buffers s ! i) [0..<length (gui_buffers s)]\<rparr>"
  using assms
proof (induction ptrs arbitrary: s)
  case Nil
  have "map (\<lambda>i. gui_buffers s ! i) [0..<length (gui_buffers s)] = gui_buffers s"
    by (rule map_nth)
  then show ?case by simp
next
  case (Cons i ptrs)
  let ?m = "day_changed_message text_time"
  let ?s = "if buffer_type (gui_buffers s ! i) = GUI_BUFFER_TYPE_FORMATED
            then gui_chat_printf i ?m s else s"
  from Cons.prems have i: "i < length (gui_buffers s)" and ni: "i \<notin> set ptrs" by simp_all
  have s': "?s = s\<lparr>gui_buffers := (gui_buffers s)[i := with_notice ?m (gui_buffers s ! i)]\<rparr>"
    using Cons.prems(1) by (simp add: gui_chat_printf_def with_notice_def Let_def)
  have "day_change_loop text_time ptrs ?s =
          ?s\<lparr>gui_buffers := map (\<lambda>j. if j \<in> set ptrs
                                       then with_notice ?m (gui_buffers ?s ! j)
                                       else gui_buffers ?s ! j) [0..<length (gui_buffers ?s)]\<rparr>"
  proof (rule Cons.IH)
    show "gui_add_hotlist ?s = 0" using Cons.prems(1) by (simp add: s')
    show "\<forall>i\<in>set ptrs. i < length (gui_buffers ?s)" using Cons.prems(2) by (simp add: s')
    show "distinct ptrs" using Cons.prems(3) by simp
  qed
  also have "\<dots> = s\<lparr>gui_buffers := map (\<lambda>j. if j \<in> set (i # ptrs)
                                       then with_notice ?m (gui_buffers s ! j)
                                       else gui_buffers s ! j) [0..<length (gui_buffers s)]\<rparr>"
    unfolding s' using i ni by (auto simp add: nth_list_update)
  finally show ?case by simp
qed

text \<open>
  Claim C8. One firing of the callback appends exactly one line to every buffer of type
  formatted and leaves the other buffers as they are. The line is two tab characters, the
  words \<^verbatim>\<open>Day changed to\<close>, a space, and the text that \<open>strftime\<close> makes of the local
  time and the value of the option \<^verbatim>\<open>look_day_change_time_format\<close>, converted to the
  internal charset when the conversion gives a string.
\<close>

theorem config_day_change_timer_cb_notices:
  "gui_buffers (snd (config_day_change_timer_cb strftime string_iconv_to_internal local_time s)) =
     map (\<lambda>b. if buffer_type b = GUI_BUFFER_TYPE_FORMATED
               then b\<lparr>buffer_lines := buffer_lines b @
                      [[CHR 0x09, CHR 0x09] @ ''Day changed to '' @
                       (case string_iconv_to_internal
                               (strftime 1024
                                  (CONFIG_STRING
                                     (config_options s Config_look_day_change_time_format))
                                  local_time) of
                          Some t \<Rightarrow> t
                        | None \<Rightarrow>
                            strftime 1024
                              (CONFIG_STRING
                                 (config_options s Config_look_day_change_time_format))
                              local_time)]\<rparr>
               else b)
       (gui_buffers s) \<and>
   fst (config_day_change_timer_cb strftime string_iconv_to_internal local_time s) = WEECHAT_RC_OK"
proof -
  let ?s1 = "s\<lparr>gui_add_hotlist := 0\<rparr>"
  have loop: "day_change_loop t [0..<length (gui_buffers ?s1)] ?s1 =
      ?s1\<lparr>gui_buffers := map (\<lambda>i. if i \<in> set [0..<length (gui_buffers ?s1)]
                                       then with_notice (day_changed_message t) (gui_buffers ?s1 ! i)
                                       else gui_buffers ?s1 ! i) [0..<length (gui_buffers ?s1)]\<rparr>" for t
    by (rule day_change_loop_quiet) simp_all
  have line: "with_notice (day_changed_message t) =
      (\<lambda>b. if buffer_type b = GUI_BUFFER_TYPE_FORMATED
            then b\<lparr>buffer_lines := buffer_lines b @
                   [[CHR 0x09, CHR 0x09] @ ''Day changed to '' @ t]\<rparr>
            else b)" for t
    by (rule ext) (simp add: with_notice_def day_changed_message_def)
  have "map (\<lambda>i. if i \<in> set [0..<length (gui_buffers ?s1)]
                  then with_notice m (gui_buffers ?s1 ! i)
                  else gui_buffers ?s1 ! i) [0..<length (gui_buffers ?s1)] =
        map (with_notice m) (gui_buffers s)" for m
    by (rule nth_equalityI) simp_all
  with loop have "gui_buffers
      (snd (config_day_change_timer_cb strftime string_iconv_to_internal local_time s)) =
     map (with_notice
            (day_changed_message
               (case string_iconv_to_internal
                       (strftime 1024
                          (CONFIG_STRING (config_options s Config_look_day_change_time_format))
                          local_time) of
                  Some t \<Rightarrow> t
                | None \<Rightarrow>
                    strftime 1024
                      (CONFIG_STRING (config_options s Config_look_day_change_time_format))
                      local_time)))
       (gui_buffers s)"
    by (simp add: config_day_change_timer_cb_def Let_def)
  moreover have "fst (config_day_change_timer_cb strftime string_iconv_to_internal local_time s) =
      WEECHAT_RC_OK"
    by (simp add: config_day_change_timer_cb_def Let_def)
  ultimately show ?thesis unfolding line by (intro conjI)
qed

text \<open>
  On the example the formatted buffer gets the line, the free buffer nothing.
\<close>

theorem config_day_change_timer_cb_notices_witness:
  "gui_buffers (snd (config_day_change_timer_cb strftime_copy Some tm_example buffers_example)) =
     [\<lparr>buffer_number = 1, buffer_type = GUI_BUFFER_TYPE_FORMATED,
       buffer_lines = [''hello'', CHR 0x09 # CHR 0x09 # ''Day changed to %a, %d %b %Y'']\<rparr>,
      \<lparr>buffer_number = 2, buffer_type = GUI_BUFFER_TYPE_FREE, buffer_lines = []\<rparr>]"
proof -
  have f: "CONFIG_STRING (config_options buffers_example Config_look_day_change_time_format) =
      ''%a, %d %b %Y''"
    by (simp add: buffers_example_def config_weechat_init_def CONFIG_STRING_def
        look_day_change_time_format_def)
  have t: "strftime_copy 1024 ''%a, %d %b %Y'' tm_example = ''%a, %d %b %Y''"
    by (simp add: strftime_copy_def)
  have b: "gui_buffers buffers_example =
     [\<lparr>buffer_number = 1, buffer_type = GUI_BUFFER_TYPE_FORMATED, buffer_lines = [''hello'']\<rparr>,
      \<lparr>buffer_number = 2, buffer_type = GUI_BUFFER_TYPE_FREE, buffer_lines = []\<rparr>]"
    by (simp add: buffers_example_def)
  from config_day_change_timer_cb_notices [of strftime_copy Some tm_example buffers_example]
  show ?thesis unfolding f t b by simp
qed

text \<open>
  Claim C10. The callback runs its loop of \<^verbatim>\<open>gui_chat_printf\<close> calls in the state in which
  \<^verbatim>\<open>gui_add_hotlist\<close> is 0 and sets the flag to 1 afterwards; the hotlist after a firing
  is the hotlist before it, and the whole state differs only in the buffers and the flag.
\<close>

theorem config_day_change_timer_cb_hotlist:
  "snd (config_day_change_timer_cb strftime string_iconv_to_internal local_time s) =
     (day_change_loop
        (case string_iconv_to_internal
                (strftime 1024
                   (CONFIG_STRING (config_options s Config_look_day_change_time_format))
                   local_time) of
           Some t \<Rightarrow> t
         | None \<Rightarrow>
             strftime 1024
               (CONFIG_STRING (config_options s Config_look_day_change_time_format))
               local_time)
        [0..<length (gui_buffers s)] (s\<lparr>gui_add_hotlist := 0\<rparr>))
       \<lparr>gui_add_hotlist := 1\<rparr> \<and>
   gui_hotlist (snd (config_day_change_timer_cb strftime string_iconv_to_internal local_time s)) =
     gui_hotlist s \<and>
   gui_add_hotlist (snd (config_day_change_timer_cb strftime string_iconv_to_internal local_time s)) = 1 \<and>
   snd (config_day_change_timer_cb strftime string_iconv_to_internal local_time s) =
     s\<lparr>gui_buffers :=
         gui_buffers (snd (config_day_change_timer_cb strftime string_iconv_to_internal local_time s)),
       gui_add_hotlist := 1\<rparr>"
proof -
  let ?s1 = "s\<lparr>gui_add_hotlist := 0\<rparr>"
  have loop: "day_change_loop t [0..<length (gui_buffers ?s1)] ?s1 =
      ?s1\<lparr>gui_buffers := map (\<lambda>i. if i \<in> set [0..<length (gui_buffers ?s1)]
                                       then with_notice (day_changed_message t) (gui_buffers ?s1 ! i)
                                       else gui_buffers ?s1 ! i) [0..<length (gui_buffers ?s1)]\<rparr>" for t
    by (rule day_change_loop_quiet) simp_all
  show ?thesis
    using loop by (simp add: config_day_change_timer_cb_def Let_def)
qed

text \<open>
  On the example the hotlist stays empty, although a line printed to the formatted buffer
  while the flag is 1 would put the buffer into the hotlist.
\<close>

theorem config_day_change_timer_cb_hotlist_witness:
  "gui_hotlist (snd (config_day_change_timer_cb strftime_copy Some tm_example buffers_example)) = [] \<and>
   gui_add_hotlist (snd (config_day_change_timer_cb strftime_copy Some tm_example buffers_example)) = 1 \<and>
   gui_add_hotlist buffers_example = 1 \<and>
   gui_hotlist (gui_chat_printf 0 (day_changed_message ''%a, %d %b %Y'') buffers_example) = [0]"
proof -
  have h: "gui_hotlist buffers_example = []"
    by (simp add: buffers_example_def config_weechat_init_def)
  have a: "gui_add_hotlist buffers_example = 1"
    by (simp add: buffers_example_def config_weechat_init_def)
  have p: "gui_hotlist (gui_chat_printf 0 (day_changed_message ''%a, %d %b %Y'') buffers_example) = [0]"
    by (simp add: gui_chat_printf_def buffers_example_def config_weechat_init_def Let_def)
  note t = config_day_change_timer_cb_hotlist [of strftime_copy Some tm_example buffers_example]
  from t [THEN conjunct2, THEN conjunct1] t [THEN conjunct2, THEN conjunct2, THEN conjunct1]
  show ?thesis using h a p by simp
qed

subsection \<open>Setting an option\<close>

lemma declared_defaults:
  "option_validate colors (declared_option p) (opt_default (declared_option p)) =
     Some (opt_value (declared_option p))"
  by (cases p)
     (simp_all add: option_validate_def look_scroll_amount_def look_day_change_def
        look_day_change_time_format_def parse_integer_def isdigit_def digit_value_def
        tolower_def INT_MAX_def)

lemma change_callback_calls:
  "callback_calls (change_callback cb s) = callback_calls s"
  by (cases cb)
     (simp_all add: config_change_buffer_content_def config_change_day_change_def
        hook_timer_def unhook_def Let_def split: option.splits)

text \<open>
  Claim C7. For an option with a change callback: when setting succeeds, the state is the
  one the callback makes of the state in which the new value is stored, and the callback
  has been called exactly once more; when setting fails, the state is unchanged, so the
  callback has not been called.
\<close>

theorem config_file_option_set_callback:
  assumes "opt_callback_change (config_options s p) = Some cb"
  shows "(fst (config_file_option_set p raw s) = Set_ok \<longrightarrow>
            callback_calls (snd (config_file_option_set p raw s)) = callback_calls s @ [cb] \<and>
            (\<exists>v. option_validate (gui_color_names s) (config_options s p) raw = Some v \<and>
                 snd (config_file_option_set p raw s) =
                   change_callback cb
                     ((option_store p v s)\<lparr>callback_calls := callback_calls s @ [cb]\<rparr>))) \<and>
         (fst (config_file_option_set p raw s) = InvalidValue \<longrightarrow>
            snd (config_file_option_set p raw s) = s \<and>
            callback_calls (snd (config_file_option_set p raw s)) = callback_calls s) \<and>
         (fst (config_file_option_set p raw s) = Set_ok \<or>
          fst (config_file_option_set p raw s) = InvalidValue)"
proof (cases "option_validate (gui_color_names s) (config_options s p) raw")
  case None
  then show ?thesis by (simp add: config_file_option_set_def)
next
  case (Some v)
  with assms have "config_file_option_set p raw s =
      (Set_ok, change_callback cb ((option_store p v s)\<lparr>callback_calls := callback_calls s @ [cb]\<rparr>))"
    by (simp add: config_file_option_set_def call_change_callback_def option_store_def)
  with Some show ?thesis by (simp add: change_callback_calls)
qed

text \<open>
  Setting \<^verbatim>\<open>look_day_change\<close> to \<^verbatim>\<open>off\<close> and to \<^verbatim>\<open>maybe\<close> in the initial state: one call
  of \<^verbatim>\<open>config_change_day_change\<close> in the first case, none in the second.
\<close>

theorem config_file_option_set_callback_witness:
  "opt_callback_change (config_options config_weechat_init Config_look_day_change) =
     Some Config_change_day_change \<and>
   fst (config_file_option_set Config_look_day_change ''off'' config_weechat_init) = Set_ok \<and>
   callback_calls (snd (config_file_option_set Config_look_day_change ''off'' config_weechat_init)) =
     [Config_change_day_change] \<and>
   fst (config_file_option_set Config_look_day_change ''maybe'' config_weechat_init) = InvalidValue \<and>
   callback_calls (snd (config_file_option_set Config_look_day_change ''maybe'' config_weechat_init)) = []"
proof -
  have cb: "opt_callback_change (config_options config_weechat_init Config_look_day_change) =
      Some Config_change_day_change"
    by (simp add: config_weechat_init_def look_day_change_def)
  have ok: "fst (config_file_option_set Config_look_day_change ''off'' config_weechat_init) = Set_ok"
    by (simp add: config_file_option_set_def option_validate_def config_weechat_init_def
        look_day_change_def tolower_def)
  have bad: "fst (config_file_option_set Config_look_day_change ''maybe'' config_weechat_init) =
      InvalidValue"
    by (simp add: config_file_option_set_def option_validate_def config_weechat_init_def
        look_day_change_def tolower_def)
  have e: "callback_calls config_weechat_init = []" by (simp add: config_weechat_init_def)
  from config_file_option_set_callback [OF cb, of "''off''"]
       config_file_option_set_callback [OF cb, of "''maybe''"]
  show ?thesis using cb ok bad e by simp
qed

text \<open>
  Claim C4. For an integer option with a range (no labels), a string that is not a base-10
  integer, or one whose value is below the minimum or above the maximum, is refused:
  \<open>InvalidValue\<close> is returned and the state, and with it the stored value, is the one
  before the call.
\<close>

theorem config_file_option_set_integer_range:
  assumes "opt_type (config_options s p) = CONFIG_OPTION_INTEGER"
    and "opt_string_values (config_options s p) = []"
    and "parse_integer raw = None \<or>
         (\<exists>n. parse_integer raw = Some n \<and>
              (n < opt_min (config_options s p) \<or> opt_max (config_options s p) < n))"
  shows "config_file_option_set p raw s = (InvalidValue, s) \<and>
         opt_value (config_options (snd (config_file_option_set p raw s)) p) =
           opt_value (config_options s p)"
proof -
  from assms have "option_validate (gui_color_names s) (config_options s p) raw = None"
    by (auto simp add: option_validate_def)
  then show ?thesis by (simp add: config_file_option_set_def)
qed

text \<open>
  Scenario A of the spec: \<^verbatim>\<open>look_scroll_amount\<close> has the range from 1 to \<open>INT_MAX\<close> and the
  default 3. Setting it to \<^verbatim>\<open>0\<close> or to \<^verbatim>\<open>ten\<close> is refused and the value is still 3; setting
  it to \<^verbatim>\<open>10\<close> succeeds.
\<close>

theorem config_file_option_set_integer_range_witness:
  "opt_min (config_options config_weechat_init Config_look_scroll_amount) = 1 \<and>
   opt_max (config_options config_weechat_init Config_look_scroll_amount) = INT_MAX \<and>
   parse_integer ''0'' = Some 0 \<and>
   config_file_option_set Config_look_scroll_amount ''0'' config_weechat_init =
     (InvalidValue, config_weechat_init) \<and>
   parse_integer ''ten'' = None \<and>
   config_file_option_set Config_look_scroll_amount ''ten'' config_weechat_init =
     (InvalidValue, config_weechat_init) \<and>
   CONFIG_INTEGER (config_options config_weechat_init Config_look_scroll_amount) = 3 \<and>
   fst (config_file_option_set Config_look_scroll_amount ''10'' config_weechat_init) = Set_ok \<and>
   CONFIG_INTEGER (config_options
      (snd (config_file_option_set Config_look_scroll_amount ''10'' config_weechat_init))
      Config_look_scroll_amount) = 10"
proof -
  have t: "opt_type (config_options config_weechat_init Config_look_scroll_amount) =
      CONFIG_OPTION_INTEGER"
    and l: "opt_string_values (config_options config_weechat_init Config_look_scroll_amount) = []"
    and lo: "opt_min (config_options config_weechat_init Config_look_scroll_amount) = 1"
    and hi: "opt_max (config_options config_weechat_init Config_look_scroll_amount) = INT_MAX"
    and v: "CONFIG_INTEGER (config_options config_weechat_init Config_look_scroll_amount) = 3"
    by (simp_all add: config_weechat_init_def look_scroll_amount_def CONFIG_INTEGER_def)
  have p0: "parse_integer ''0'' = Some 0"
    by (simp add: parse_integer_def isdigit_def digit_value_def)
  have pt: "parse_integer ''ten'' = None"
    by (simp add: parse_integer_def isdigit_def)
  have h0: "parse_integer ''0'' = None \<or>
      (\<exists>n. parse_integer ''0'' = Some n \<and>
         (n < opt_min (config_options config_weechat_init Config_look_scroll_amount) \<or>
          opt_max (config_options config_weechat_init Config_look_scroll_amount) < n))"
    by (simp add: p0 lo)
  have ht: "parse_integer ''ten'' = None \<or>
      (\<exists>n. parse_integer ''ten'' = Some n \<and>
         (n < opt_min (config_options config_weechat_init Config_look_scroll_amount) \<or>
          opt_max (config_options config_weechat_init Config_look_scroll_amount) < n))"
    by (simp add: pt)
  have ten: "config_file_option_set Config_look_scroll_amount ''10'' config_weechat_init =
      (Set_ok, call_change_callback Config_change_buffer_content
                 (option_store Config_look_scroll_amount (Int_value 10) config_weechat_init))"
    by (simp add: config_file_option_set_def option_validate_def config_weechat_init_def
        look_scroll_amount_def parse_integer_def isdigit_def digit_value_def INT_MAX_def)
  have v10: "CONFIG_INTEGER (config_options
      (call_change_callback Config_change_buffer_content
         (option_store Config_look_scroll_amount (Int_value 10) config_weechat_init))
      Config_look_scroll_amount) = 10"
    by (simp add: call_change_callback_def option_store_def config_change_buffer_content_def
        CONFIG_INTEGER_def)
  from config_file_option_set_integer_range [OF t l h0]
       config_file_option_set_integer_range [OF t l ht]
  show ?thesis using lo hi p0 pt v ten v10 by simp
qed













































lemma key_written_as_key [simp]:
  "key_key (key_written_as expanded k) = written_key_name expanded (key_key k)"
  by (simp add: key_written_as_def)







end
